theory Spec2Isabelle
  imports Complex_Main "HOL-Library.Char_ord" "HOL-Library.List_Lexorder"
    "HOL-Library.Product_Lexorder"
begin

section \<open>Data model of baseline\_model.py\<close>

text \<open>
  The program keeps three tables: the frames read from the PJM load CSVs, the table of
  group means written by \<^verbatim>\<open>train\<close> (a parquet file) and the prediction rows written
  by \<^verbatim>\<open>predict\<close>. A pandas frame is a list of rows in this development, since the
  code depends on row order (\<^verbatim>\<open>.values[0]\<close>, \<^verbatim>\<open>drop_duplicates\<close> keeping the
  first row).

  Numbers: pandas holds loads as binary floating point. They are rationals here, so a
  mean is the exact quotient and \<^verbatim>\<open>round\<close> sees the exact value; NaN is the separate
  cell \<open>NaN\<close> of a raw frame and cannot occur in a table of means.

  Time: a pandas \<^verbatim>\<open>Timestamp\<close> without time zone is a count of nanoseconds since
  1970-01-01T00:00, a Thursday.

  Errors: a Python exception is a value of \<open>py_error\<close>, and a function that can raise
  returns a sum with the error on the left. A function that touches files takes the file
  system and returns it, changed as far as the code got. The progress lines the program
  prints are left out.
\<close>

type_synonym timestamp = int

definition ns_per_hour :: int where
  "ns_per_hour = 3600000000000"

definition ns_per_day :: int where
  "ns_per_day = 24 * ns_per_hour"

definition ts_hour :: "timestamp \<Rightarrow> nat" where
  \<comment> \<open>\<^verbatim>\<open>Timestamp.hour\<close>\<close>
  "ts_hour t = nat ((t div ns_per_hour) mod 24)"

definition ts_dayofweek :: "timestamp \<Rightarrow> nat" where
  \<comment> \<open>\<^verbatim>\<open>Timestamp.dayofweek\<close>, Monday is 0\<close>
  "ts_dayofweek t = nat ((t div ns_per_day + 3) mod 7)"

definition normalize_ts :: "timestamp \<Rightarrow> timestamp" where
  \<comment> \<open>\<^verbatim>\<open>Timestamp.normalize()\<close>: midnight of the same day\<close>
  "normalize_ts t = t - t mod ns_per_day"

definition ts_date :: "timestamp \<Rightarrow> int" where
  \<comment> \<open>\<^verbatim>\<open>Timestamp.date()\<close>, as the number of the day\<close>
  "ts_date t = t div ns_per_day"

datatype py_error =
  IndexError | FileNotFoundError | ValueError string | TypeError

datatype cell = NaN | Str string | Num rat

record frame =
  columns :: "string list"
  cells :: "cell list list"

record pjm_row =
  timestamp :: timestamp
  zone :: string
  load_mw :: cell

record mean_row =
  mzone :: string
  day_of_week :: nat
  hour :: nat
  load_mean :: rat

record pred_row =
  date :: int
  pzone :: string
  ptimestamp :: timestamp
  pred_load_mw :: int

text \<open>
  The files the program touches: the CSVs it reads, the directories it makes, the model
  tables and the prediction tables it writes.
\<close>

record fs =
  csv_in :: "string \<rightharpoonup> frame"
  dirs :: "string set"
  parquet :: "string \<rightharpoonup> mean_row list"
  csv_out :: "string \<rightharpoonup> pred_row list"

text \<open>
  What the program takes from its libraries without this development looking inside:
  the paths a glob pattern matches, the parsers of dates, the text of a number and the
  \<^verbatim>\<open>%m-%d\<close> rendering of a date.
\<close>

record lib =
  glob :: "string \<Rightarrow> string list"
  to_datetime :: "cell \<Rightarrow> timestamp option"
  Timestamp :: "string \<Rightarrow> timestamp option"
  num_str :: "rat \<Rightarrow> string"
  strftime_md :: "timestamp \<Rightarrow> string"

section \<open>Strings\<close>

text \<open>
  \<^verbatim>\<open>str.lower\<close>, \<^verbatim>\<open>str.upper\<close> and \<^verbatim>\<open>str.strip\<close> on ASCII text: letters change case,
  every other character stays, and the white space is what \<^verbatim>\<open>str.isspace\<close> accepts
  below 128.
\<close>

definition lower_char :: "char \<Rightarrow> char" where
  "lower_char c =
     (let n = (of_char c :: nat) in if 65 \<le> n \<and> n \<le> 90 then char_of (n + 32) else c)"

definition upper_char :: "char \<Rightarrow> char" where
  "upper_char c =
     (let n = (of_char c :: nat) in if 97 \<le> n \<and> n \<le> 122 then char_of (n - 32) else c)"

definition is_space :: "char \<Rightarrow> bool" where
  "is_space c = (let n = (of_char c :: nat) in (9 \<le> n \<and> n \<le> 13) \<or> (28 \<le> n \<and> n \<le> 32))"

definition lower :: "string \<Rightarrow> string" where
  "lower s = map lower_char s"

definition upper :: "string \<Rightarrow> string" where
  "upper s = map upper_char s"

definition strip :: "string \<Rightarrow> string" where
  "strip s = rev (dropWhile is_space (rev (dropWhile is_space s)))"

section \<open>Numbers and group means\<close>

definition py_round :: "rat \<Rightarrow> int" where
  \<comment> \<open>\<^verbatim>\<open>round(x)\<close> with one argument: the nearest integer, a tie going to the even one\<close>
  "py_round x =
     (let f = \<lfloor>x\<rfloor>; d = x - of_int f
      in if d < 1 / 2 then f else if 1 / 2 < d then f + 1 else if even f then f else f + 1)"

definition mean :: "rat list \<Rightarrow> rat" where
  "mean xs = sum_list xs / of_nat (length xs)"

definition groupby_mean :: "('a \<Rightarrow> 'k::linorder) \<Rightarrow> ('a \<Rightarrow> rat) \<Rightarrow> 'a list \<Rightarrow> ('k \<times> rat) list" where
  \<comment> \<open>\<^verbatim>\<open>df.groupby(keys, as_index=False)[col].mean()\<close>: one row per key, keys ascending\<close>
  "groupby_mean key val df =
     map (\<lambda>k. (k, mean (map val (filter (\<lambda>r. key r = k) df)))) (sort (remdups (map key df)))"

definition values0 :: "'a list \<Rightarrow> py_error + 'a" where
  \<comment> \<open>\<^verbatim>\<open>.values[0]\<close>\<close>
  "values0 xs = (case xs of [] \<Rightarrow> Inl IndexError | x # _ \<Rightarrow> Inr x)"

section \<open>Training\<close>

definition ensure_dirs :: "fs \<Rightarrow> fs" where
  "ensure_dirs s = s\<lparr>dirs := dirs s \<union> {''models'', ''predictions''}\<rparr>"

definition ts_cands :: "string list" where
  "ts_cands = [''timestamp'', ''datetime'', ''datetime_beginning_ept'',
     ''datetime_beginning_utc'', ''datetime_beginning_gmt'', ''datetime_beginning'']"

definition zone_cands :: "string list" where
  "zone_cands = [''zone'', ''zone_name'', ''area'', ''area_name'']"

definition load_cands :: "string list" where
  "load_cands = [''mw'', ''load_mw'', ''hrl_load'', ''load'', ''value'']"

definition find_col :: "string list \<Rightarrow> string list \<Rightarrow> string option" where
  \<comment> \<open>the first candidate that is a column\<close>
  "find_col cands cols = List.find (\<lambda>cand. cand \<in> set cols) cands"

definition col_index :: "string list \<Rightarrow> string \<Rightarrow> nat" where
  "col_index cols name = length (takeWhile (\<lambda>c. c \<noteq> name) cols)"

definition cell_at :: "cell list \<Rightarrow> nat \<Rightarrow> cell" where
  \<comment> \<open>a short line of a CSV is padded with NaN\<close>
  "cell_at r i = (if i < length r then r ! i else NaN)"

definition astype_str :: "lib \<Rightarrow> cell \<Rightarrow> string" where
  "astype_str L c = (case c of Str s \<Rightarrow> s | Num q \<Rightarrow> num_str L q | NaN \<Rightarrow> ''nan'')"

definition norm_zone :: "string \<Rightarrow> string" where
  \<comment> \<open>\<^verbatim>\<open>.str.strip().str.upper()\<close>\<close>
  "norm_zone s = upper (strip s)"

definition std_row :: "lib \<Rightarrow> nat \<Rightarrow> nat \<Rightarrow> nat \<Rightarrow> cell list \<Rightarrow> pjm_row option" where
  \<comment> \<open>lines 44 to 48 on one row: the three columns, the date parsed, the row dropped when
      a value is missing, the zone normalised\<close>
  "std_row L i j k r =
     (case to_datetime L (cell_at r i) of
        None \<Rightarrow> None
      | Some t \<Rightarrow>
          if cell_at r j = NaN \<or> cell_at r k = NaN then None
          else Some \<lparr>timestamp = t, zone = norm_zone (astype_str L (cell_at r j)),
                      load_mw = cell_at r k\<rparr>)"

definition std_rows :: "lib \<Rightarrow> nat \<Rightarrow> nat \<Rightarrow> nat \<Rightarrow> cell list list \<Rightarrow> pjm_row list" where
  "std_rows L i j k rs = List.map_filter (std_row L i j k) rs"

definition read_std_pjm :: "lib \<Rightarrow> fs \<Rightarrow> string \<Rightarrow> py_error + pjm_row list" where
  "read_std_pjm L s csv_path =
     (case csv_in s csv_path of
        None \<Rightarrow> Inl FileNotFoundError
      | Some df \<Rightarrow>
          let cols = map lower (columns df) in
          (case find_col ts_cands cols of
             None \<Rightarrow> Inl (ValueError ''No timestamp column'')
           | Some ts \<Rightarrow>
          (case find_col zone_cands cols of
             None \<Rightarrow> Inl (ValueError ''No zone column'')
           | Some zn \<Rightarrow>
          (case find_col load_cands cols of
             None \<Rightarrow> Inl (ValueError ''No load column'')
           | Some ld \<Rightarrow>
               if count_list cols ts + count_list cols zn + count_list cols ld \<noteq> 3
               then Inl (ValueError ''Length mismatch'')
               else Inr (std_rows L (col_index cols ts) (col_index cols zn)
                           (col_index cols ld) (cells df))))))"

fun read_all :: "lib \<Rightarrow> fs \<Rightarrow> string list \<Rightarrow> py_error + pjm_row list list" where
  \<comment> \<open>\<^verbatim>\<open>[read_std_pjm(f) for f in files]\<close>\<close>
  "read_all L s [] = Inr []"
| "read_all L s (f # files) =
     (case read_std_pjm L s f of
        Inl e \<Rightarrow> Inl e
      | Inr fr \<Rightarrow> (case read_all L s files of Inl e \<Rightarrow> Inl e | Inr frs \<Rightarrow> Inr (fr # frs)))"

definition zone_ts :: "pjm_row \<Rightarrow> string \<times> timestamp" where
  \<comment> \<open>the columns \<^verbatim>\<open>["zone","timestamp"]\<close> of a row\<close>
  "zone_ts r = (zone r, timestamp r)"

fun dedup_from :: "(string \<times> timestamp) list \<Rightarrow> pjm_row list \<Rightarrow> pjm_row list" where
  "dedup_from seen [] = []"
| "dedup_from seen (r # rs) =
     (if zone_ts r \<in> set seen then dedup_from seen rs
      else r # dedup_from (zone_ts r # seen) rs)"

definition drop_duplicates :: "pjm_row list \<Rightarrow> pjm_row list" where
  \<comment> \<open>\<^verbatim>\<open>drop_duplicates(subset=["zone","timestamp"])\<close>: the first row of each key stays\<close>
  "drop_duplicates df = dedup_from [] df"

definition sort_values :: "pjm_row list \<Rightarrow> pjm_row list" where
  \<comment> \<open>\<^verbatim>\<open>sort_values(["zone","timestamp"])\<close>\<close>
  "sort_values df = sort_key zone_ts df"

definition load_pjm_glob :: "lib \<Rightarrow> string \<Rightarrow> fs \<Rightarrow> py_error + pjm_row list" where
  "load_pjm_glob L pattern s =
     (let files = sort (glob L pattern) in
      if files = [] then Inl FileNotFoundError
      else (case read_all L s files of
              Inl e \<Rightarrow> Inl e
            | Inr frames \<Rightarrow> Inr (sort_values (drop_duplicates (concat frames)))))"

definition is_num :: "cell \<Rightarrow> bool" where
  "is_num c = (case c of Num _ \<Rightarrow> True | _ \<Rightarrow> False)"

definition num_of :: "cell \<Rightarrow> rat" where
  "num_of c = (case c of Num q \<Rightarrow> q | _ \<Rightarrow> 0)"

definition group_key :: "pjm_row \<Rightarrow> string \<times> nat \<times> nat" where
  "group_key r = (zone r, ts_dayofweek (timestamp r), ts_hour (timestamp r))"

definition mk_mean_row :: "(string \<times> nat \<times> nat) \<times> rat \<Rightarrow> mean_row" where
  \<comment> \<open>a row of \<^verbatim>\<open>grp\<close>: the three key columns and \<^verbatim>\<open>load_mean\<close>\<close>
  "mk_mean_row = (\<lambda>(k, v). \<lparr>mzone = fst k, day_of_week = fst (snd k), hour = snd (snd k),
                            load_mean = v\<rparr>)"

definition hist_avg :: "pjm_row list \<Rightarrow> py_error + mean_row list" where
  \<comment> \<open>lines 62 to 66, the table \<^verbatim>\<open>grp\<close>; the mean of a column holding text raises\<close>
  "hist_avg df =
     (if \<exists>r \<in> set df. \<not> is_num (load_mw r) then Inl TypeError
      else Inr (map mk_mean_row (groupby_mean group_key (\<lambda>r. num_of (load_mw r)) df)))"

definition train_hist_avg :: "pjm_row list \<Rightarrow> string \<Rightarrow> fs \<Rightarrow> (py_error + unit) \<times> fs" where
  "train_hist_avg pjm_df out_path s =
     (let s1 = ensure_dirs s in
      case hist_avg pjm_df of
        Inl e \<Rightarrow> (Inl e, s1)
      | Inr grp \<Rightarrow> (Inr (), s1\<lparr>parquet := (parquet s1)(out_path \<mapsto> grp)\<rparr>))"

definition main_train :: "lib \<Rightarrow> string \<Rightarrow> string \<Rightarrow> fs \<Rightarrow> (py_error + unit) \<times> fs" where
  \<comment> \<open>the \<^verbatim>\<open>train\<close> command of \<^verbatim>\<open>main\<close>\<close>
  "main_train L pjm_glob out s =
     (case load_pjm_glob L pjm_glob s of
        Inl e \<Rightarrow> (Inl e, s)
      | Inr df \<Rightarrow> train_hist_avg df out s)"

section \<open>Prediction\<close>

definition slot_pred ::
  "mean_row list \<Rightarrow> ((string \<times> nat) \<times> rat) list \<Rightarrow> (nat \<times> rat) list \<Rightarrow>
     string \<Rightarrow> nat \<Rightarrow> nat \<Rightarrow> py_error + rat" where
  \<comment> \<open>lines 89 to 97: the value \<^verbatim>\<open>pred\<close> of one slot\<close>
  "slot_pred means z_h h z dow hr =
     (let m = filter (\<lambda>r. mzone r = z \<and> day_of_week r = dow \<and> hour r = hr) means in
      if m \<noteq> [] then values0 (map load_mean m)
      else
        let m2 = filter (\<lambda>g. fst (fst g) = z \<and> snd (fst g) = hr) z_h in
        if m2 \<noteq> [] then values0 (map snd m2)
        else values0 (map snd (filter (\<lambda>g. fst g = hr) h)))"

definition slot_row ::
  "mean_row list \<Rightarrow> ((string \<times> nat) \<times> rat) list \<Rightarrow> (nat \<times> rat) list \<Rightarrow>
     timestamp \<Rightarrow> nat \<Rightarrow> string \<Rightarrow> timestamp \<Rightarrow> py_error + pred_row" where
  \<comment> \<open>lines 88 to 98: the body of the inner loop\<close>
  "slot_row means z_h h target dow z ts =
     (case slot_pred means z_h h z dow (ts_hour ts) of
        Inl e \<Rightarrow> Inl e
      | Inr pred \<Rightarrow> Inr \<lparr>date = ts_date target, pzone = z, ptimestamp = ts,
                         pred_load_mw = py_round pred\<rparr>)"

fun for_hours ::
  "(timestamp \<Rightarrow> py_error + pred_row) \<Rightarrow> timestamp list \<Rightarrow> pred_row list \<Rightarrow>
     py_error + pred_row list" where
  "for_hours body [] rows = Inr rows"
| "for_hours body (ts # hours) rows =
     (case body ts of Inl e \<Rightarrow> Inl e | Inr row \<Rightarrow> for_hours body hours (rows @ [row]))"

fun for_zones ::
  "(string \<Rightarrow> timestamp \<Rightarrow> py_error + pred_row) \<Rightarrow> timestamp list \<Rightarrow> string list \<Rightarrow>
     pred_row list \<Rightarrow> py_error + pred_row list" where
  "for_zones body hours [] rows = Inr rows"
| "for_zones body hours (z # zones) rows =
     (case for_hours (body z) hours rows of
        Inl e \<Rightarrow> Inl e
      | Inr rows' \<Rightarrow> for_zones body hours zones rows')"

definition date_range :: "timestamp \<Rightarrow> timestamp list" where
  \<comment> \<open>\<^verbatim>\<open>pd.date_range(target, target + pd.Timedelta(hours=23), freq="H")\<close>\<close>
  "date_range target = map (\<lambda>i. target + int i * ns_per_hour) [0..<24]"

definition zone_hour_means :: "mean_row list \<Rightarrow> ((string \<times> nat) \<times> rat) list" where
  \<comment> \<open>line 78, the table \<^verbatim>\<open>z_h\<close>\<close>
  "zone_hour_means means = groupby_mean (\<lambda>r. (mzone r, hour r)) load_mean means"

definition hour_means :: "mean_row list \<Rightarrow> (nat \<times> rat) list" where
  \<comment> \<open>line 79, the table \<^verbatim>\<open>h\<close>\<close>
  "hour_means means = groupby_mean hour load_mean means"

definition all_zones :: "mean_row list \<Rightarrow> string list" where
  \<comment> \<open>\<^verbatim>\<open>sorted(means["zone"].unique().tolist())\<close>\<close>
  "all_zones means = sort (remdups (map mzone means))"

definition requested_zones :: "mean_row list \<Rightarrow> string list option \<Rightarrow> string list" where
  \<comment> \<open>lines 81 and 82: without a zone list, every zone of the model\<close>
  "requested_zones means zones = (case zones of None \<Rightarrow> all_zones means | Some zs \<Rightarrow> zs)"

definition predict_day ::
  "lib \<Rightarrow> string \<Rightarrow> string \<Rightarrow> string list option \<Rightarrow> string option \<Rightarrow> fs \<Rightarrow>
     (py_error + pred_row list) \<times> fs" where
  "predict_day L date_str model_path zones out_csv s =
     (let s1 = ensure_dirs s in
      case Timestamp L date_str of
        None \<Rightarrow> (Inl (ValueError ''date''), s1)
      | Some t \<Rightarrow>
          let target = normalize_ts t; hours = date_range target in
          (case parquet s1 model_path of
             None \<Rightarrow> (Inl FileNotFoundError, s1)
           | Some means \<Rightarrow>
               let z_h = zone_hour_means means;
                   h = hour_means means;
                   zones' = requested_zones means zones;
                   dow = ts_dayofweek target
               in (case for_zones (slot_row means z_h h target dow) hours zones' [] of
                     Inl e \<Rightarrow> (Inl e, s1)
                   | Inr preds \<Rightarrow>
                       let out = (case out_csv of
                                    None \<Rightarrow> ''predictions/'' @ strftime_md L target @ ''.csv''
                                  | Some p \<Rightarrow> p)
                       in (Inr preds, s1\<lparr>csv_out := (csv_out s1)(out \<mapsto> preds)\<rparr>))))"

section \<open>The command line\<close>

fun split_on :: "char \<Rightarrow> string \<Rightarrow> string list" where
  \<comment> \<open>\<^verbatim>\<open>str.split(sep)\<close> for a separator of one character\<close>
  "split_on c [] = [[]]"
| "split_on c (x # xs) =
     (if x = c then [] # split_on c xs
      else (case split_on c xs of [] \<Rightarrow> [[x]] | p # ps \<Rightarrow> (x # p) # ps))"

definition cli_zones :: "string option \<Rightarrow> string list option" where
  \<comment> \<open>lines 126 to 128: the \<^verbatim>\<open>--zones\<close> argument, absent or empty for all zones\<close>
  "cli_zones a =
     (case a of
        None \<Rightarrow> None
      | Some x \<Rightarrow>
          if x = [] then None
          else Some (filter (\<lambda>z. z \<noteq> []) (map strip (split_on CHR '','' x))))"

definition main_predict ::
  "lib \<Rightarrow> string \<Rightarrow> string \<Rightarrow> string option \<Rightarrow> string option \<Rightarrow> fs \<Rightarrow>
     (py_error + pred_row list) \<times> fs" where
  \<comment> \<open>the \<^verbatim>\<open>predict\<close> command of \<^verbatim>\<open>main\<close>\<close>
  "main_predict L date_arg model zones_arg out s =
     predict_day L date_arg model (cli_zones zones_arg) out s"

section \<open>Example inputs\<close>

text \<open>
  Concrete inputs on which the theorems below are run: library functions that know the
  two dates of the examples, a file system holding one model table, the model of one
  entry and a model with an entry for every hour of the day.
\<close>

definition example_lib :: lib where
  "example_lib =
     \<lparr>glob = (\<lambda>p. if p = ''data/[ab].csv'' then [''data/b.csv'', ''data/a.csv'']
                  else if p = ''data/*.csv'' then [''data/c.csv'', ''data/b.csv'', ''data/a.csv'']
                  else []),
      to_datetime = (\<lambda>c. case c of Num q \<Rightarrow> Some \<lfloor>q\<rfloor> | _ \<Rightarrow> None),
      Timestamp = (\<lambda>d. if d = ''2025-11-10'' then Some 1762732800000000000
                         else if d = ''2025-11-11'' then Some 1762819200000000000 else None),
      num_str = (\<lambda>q. ''0''),
      strftime_md = (\<lambda>t. if t = 1762732800000000000 then ''11-10'' else ''11-11'')\<rparr>"

definition example_fs :: "mean_row list \<Rightarrow> fs" where
  "example_fs means =
     \<lparr>csv_in = Map.empty, dirs = {}, parquet = [''m.parquet'' \<mapsto> means], csv_out = Map.empty\<rparr>"

definition one_entry_model :: "mean_row list" where
  "one_entry_model = [\<lparr>mzone = ''MZ'', day_of_week = 0, hour = 14, load_mean = 25002 / 5\<rparr>]"

definition full_day_model :: "mean_row list" where
  "full_day_model =
     map (\<lambda>i. \<lparr>mzone = ''MZ'', day_of_week = 0, hour = i,
               load_mean = (if i = 14 then 25002 / 5 else 4000)\<rparr>) [0..<24]"


definition example_csv_fs :: fs where
  \<comment> \<open>two CSV files that hold the same hour of zone MZ under different spellings, and one
      hour of zone PE\<close>
  "example_csv_fs =
     \<lparr>csv_in =
        [''data/a.csv'' \<mapsto>
           \<lparr>columns = [''Datetime_Beginning_EPT'', ''Zone'', ''MW''],
            cells = [[Num 1762783200000000000, Str '' mz '', Num 5000],
                     [Num 1762783200000000000, Str ''PE'', Num 3000],
                     [Str ''n/a'', Str ''MZ'', Num 1]]\<rparr>,
         ''data/b.csv'' \<mapsto>
           \<lparr>columns = [''zone'', ''timestamp'', ''load_mw''],
            cells = [[Str ''MZ'', Num 1762783200000000000, Num 7000],
                     [Str ''MZ'', Num 1763388000000000000, Num 6000],
                     [Str ''MZ'', Num 1763391600000000000, NaN]]\<rparr>,
         ''data/c.csv'' \<mapsto>
           \<lparr>columns = [''timestamp'', ''zone'', ''temperature''], cells = []\<rparr>],
      dirs = {}, parquet = Map.empty, csv_out = Map.empty\<rparr>"



definition mean_key :: "mean_row \<Rightarrow> string \<times> nat \<times> nat" where
  \<comment> \<open>the key of a row of the table of means\<close>
  "mean_key r = (mzone r, day_of_week r, hour r)"


section \<open>Properties of the parts\<close>

subsection \<open>Time\<close>

lemma hour_of_slot:
  fixes H d :: int and i :: nat
  assumes "0 < H" "i < 24"
  shows "((24 * H * d + int i * H) div H) mod 24 = int i"
proof -
  have "24 * H * d + int i * H = (24 * d + int i) * H" by (simp add: algebra_simps)
  then have "(24 * H * d + int i * H) div H = 24 * d + int i" using assms(1) by simp
  then show ?thesis using assms(2) by simp
qed

lemma normalize_ts_mult: "normalize_ts t = ns_per_day * (t div ns_per_day)"
  unfolding normalize_ts_def by (simp add: minus_mod_eq_mult_div)

lemma ts_hour_range:
  assumes "i < 24"
  shows "ts_hour (normalize_ts t + int i * ns_per_hour) = i"
proof -
  have pos: "0 < ns_per_hour" by (simp add: ns_per_hour_def)
  have "normalize_ts t = 24 * ns_per_hour * (t div ns_per_day)"
    by (simp add: normalize_ts_mult ns_per_day_def)
  then show ?thesis
    unfolding ts_hour_def using hour_of_slot [OF pos assms] by simp
qed

lemma map_ts_hour_date_range: "map ts_hour (date_range (normalize_ts t)) = [0..<24]"
proof -
  have "map (\<lambda>i. ts_hour (normalize_ts t + int i * ns_per_hour)) [0..<24] = map (\<lambda>i. i) [0..<24]"
    by (rule map_cong) (simp_all add: ts_hour_range)
  then show ?thesis by (simp add: date_range_def comp_def)
qed

subsection \<open>Group means\<close>

lemma filter_eq_distinct:
  "distinct xs \<Longrightarrow> filter (\<lambda>x. x = k) xs = (if k \<in> set xs then [k] else [])"
  by (induction xs) auto

lemma filter_groupby_mean:
  "filter (\<lambda>g. fst g = k) (groupby_mean key val df) =
     (if k \<in> key ` set df then [(k, mean (map val (filter (\<lambda>r. key r = k) df)))] else [])"
proof -
  let ?ks = "sort (remdups (map key df))"
  let ?f = "\<lambda>k. (k, mean (map val (filter (\<lambda>r. key r = k) df)))"
  have "filter (\<lambda>g. fst g = k) (map ?f ?ks) = map ?f (filter (\<lambda>x. x = k) ?ks)"
    by (simp add: filter_map comp_def)
  moreover have "distinct ?ks" by simp
  moreover have "set ?ks = key ` set df" by simp
  ultimately show ?thesis
    unfolding groupby_mean_def by (simp add: filter_eq_distinct)
qed

lemma filter_zone_hour_means:
  "filter (\<lambda>g. fst (fst g) = z \<and> snd (fst g) = hr) (zone_hour_means means) =
     (if \<exists>r \<in> set means. mzone r = z \<and> hour r = hr
      then [((z, hr), mean (map load_mean (filter (\<lambda>r. mzone r = z \<and> hour r = hr) means)))]
      else [])"
proof -
  have p: "(\<lambda>g::(string \<times> nat) \<times> rat. fst (fst g) = z \<and> snd (fst g) = hr) = (\<lambda>g. fst g = (z, hr))"
    by (auto simp: prod_eq_iff)
  have q: "(\<lambda>r. (mzone r, hour r) = (z, hr)) = (\<lambda>r. mzone r = z \<and> hour r = hr)"
    by auto
  have m: "(z, hr) \<in> (\<lambda>r. (mzone r, hour r)) ` set means \<longleftrightarrow>
             (\<exists>r \<in> set means. mzone r = z \<and> hour r = hr)"
    by auto
  show ?thesis
    unfolding zone_hour_means_def p filter_groupby_mean q m ..
qed

lemma filter_hour_means:
  "filter (\<lambda>g. fst g = hr) (hour_means means) =
     (if \<exists>r \<in> set means. hour r = hr
      then [(hr, mean (map load_mean (filter (\<lambda>r. hour r = hr) means)))]
      else [])"
  unfolding hour_means_def by (auto simp: filter_groupby_mean image_iff)

subsection \<open>One slot\<close>

lemma values0_Cons: "xs \<noteq> [] \<Longrightarrow> values0 xs = Inr (hd xs)"
  by (cases xs) (simp_all add: values0_def)

lemma values0_error: "values0 xs = Inl e \<Longrightarrow> e = IndexError"
  by (cases xs) (simp_all add: values0_def)

lemma slot_pred_exact:
  assumes "filter (\<lambda>r. mzone r = z \<and> day_of_week r = dow \<and> hour r = hr) means \<noteq> []"
  shows "slot_pred means z_h h z dow hr =
           Inr (load_mean (hd (filter (\<lambda>r. mzone r = z \<and> day_of_week r = dow \<and> hour r = hr) means)))"
  using assms by (simp add: slot_pred_def Let_def values0_Cons hd_map)

lemma filter_key_distinct:
  assumes "distinct (map f xs)" "e \<in> set xs"
  shows "filter (\<lambda>r. f r = f e) xs = [e]"
  using assms
proof (induction xs)
  case Nil
  then show ?case by simp
next
  case (Cons x xs)
  show ?case
  proof (cases "x = e")
    case True
    have "filter (\<lambda>r. f r = f e) xs = []"
      using Cons.prems(1) True by (auto simp: filter_empty_conv image_iff)
    then show ?thesis using True by simp
  next
    case False
    then have "e \<in> set xs" using Cons.prems(2) by simp
    moreover have "f x \<noteq> f e" using Cons.prems(1) \<open>e \<in> set xs\<close> by auto
    ultimately show ?thesis using Cons by simp
  qed
qed

lemma exact_rows_distinct:
  assumes "distinct (map mean_key means)" "e \<in> set means"
  shows "filter (\<lambda>r. mzone r = mzone e \<and> day_of_week r = day_of_week e \<and> hour r = hour e) means = [e]"
proof -
  have "(\<lambda>r. mzone r = mzone e \<and> day_of_week r = day_of_week e \<and> hour r = hour e) =
        (\<lambda>r. mean_key r = mean_key e)"
    by (auto simp: mean_key_def)
  then show ?thesis using filter_key_distinct [OF assms] by simp
qed

lemma slot_pred_zone_hour:
  assumes "filter (\<lambda>r. mzone r = z \<and> day_of_week r = dow \<and> hour r = hr) means = []"
    and "\<exists>r \<in> set means. mzone r = z \<and> hour r = hr"
  shows "slot_pred means (zone_hour_means means) h z dow hr =
           Inr (mean (map load_mean (filter (\<lambda>r. mzone r = z \<and> hour r = hr) means)))"
  using assms(2) unfolding slot_pred_def Let_def assms(1) filter_zone_hour_means
  by (simp add: values0_def)

lemma slot_pred_global:
  assumes "\<forall>r \<in> set means. \<not> (mzone r = z \<and> hour r = hr)"
  shows "slot_pred means (zone_hour_means means) (hour_means means) z dow hr =
           (if \<exists>r \<in> set means. hour r = hr
            then Inr (mean (map load_mean (filter (\<lambda>r. hour r = hr) means)))
            else Inl IndexError)"
proof -
  have e: "filter (\<lambda>r. mzone r = z \<and> day_of_week r = dow \<and> hour r = hr) means = []"
    using assms by (auto simp: filter_empty_conv)
  have n: "\<not> (\<exists>r \<in> set means. mzone r = z \<and> hour r = hr)" using assms by blast
  show ?thesis
    unfolding slot_pred_def Let_def e filter_zone_hour_means filter_hour_means
    using n by (auto simp: values0_def)
qed

lemma slot_pred_error:
  "slot_pred means z_h h z dow hr = Inl e \<Longrightarrow> e = IndexError"
  unfolding slot_pred_def Let_def by (auto split: if_splits dest: values0_error)

lemma slot_pred_covered:
  assumes "\<exists>r \<in> set means. hour r = hr"
  shows "\<exists>v. slot_pred means (zone_hour_means means) (hour_means means) z dow hr = Inr v"
proof (cases "filter (\<lambda>r. mzone r = z \<and> day_of_week r = dow \<and> hour r = hr) means = []")
  case False
  then show ?thesis using slot_pred_exact by blast
next
  case True
  show ?thesis
  proof (cases "\<exists>r \<in> set means. mzone r = z \<and> hour r = hr")
    case True
    then show ?thesis using slot_pred_zone_hour [OF \<open>filter _ means = []\<close>] by blast
  next
    case False
    then have "\<forall>r \<in> set means. \<not> (mzone r = z \<and> hour r = hr)" by blast
    from slot_pred_global [OF this] assms show ?thesis by auto
  qed
qed

lemma slot_pred_uncovered:
  assumes "\<forall>r \<in> set means. hour r \<noteq> hr"
  shows "slot_pred means (zone_hour_means means) (hour_means means) z dow hr = Inl IndexError"
proof -
  have "\<forall>r \<in> set means. \<not> (mzone r = z \<and> hour r = hr)" using assms by blast
  from slot_pred_global [OF this] assms show ?thesis by auto
qed

subsection \<open>The loops\<close>

lemma for_hours_Inr:
  "for_hours body hs acc = Inr out \<longleftrightarrow> (\<exists>new. out = acc @ new \<and> map body hs = map Inr new)"
proof (induction hs arbitrary: acc)
  case Nil
  then show ?case by auto
next
  case (Cons ts hs)
  show ?case
  proof (cases "body ts")
    case (Inl e)
    then show ?thesis by (auto simp: map_eq_Cons_conv)
  next
    case (Inr row)
    have "for_hours body (ts # hs) acc = Inr out \<longleftrightarrow>
            (\<exists>new. out = (acc @ [row]) @ new \<and> map body hs = map Inr new)"
      using Inr Cons.IH by simp
    also have "\<dots> \<longleftrightarrow> (\<exists>new. out = acc @ new \<and> map body (ts # hs) = map Inr new)"
      using Inr by (auto simp: map_eq_Cons_conv Cons_eq_map_conv)
    finally show ?thesis .
  qed
qed

lemma for_zones_Inr:
  "for_zones body hours zs acc = Inr out \<longleftrightarrow>
     (\<exists>news. out = acc @ concat news \<and> map (\<lambda>z. map (body z) hours) zs = map (map Inr) news)"
proof (induction zs arbitrary: acc)
  case Nil
  then show ?case by auto
next
  case (Cons z zs)
  have "for_zones body hours (z # zs) acc = Inr out \<longleftrightarrow>
          (\<exists>rows'. for_hours (body z) hours acc = Inr rows' \<and> for_zones body hours zs rows' = Inr out)"
    by (auto split: sum.splits)
  also have "\<dots> \<longleftrightarrow> (\<exists>new news. out = (acc @ new) @ concat news \<and> map (body z) hours = map Inr new
                        \<and> map (\<lambda>z. map (body z) hours) zs = map (map Inr) news)"
    unfolding for_hours_Inr Cons.IH by blast
  also have "\<dots> \<longleftrightarrow> (\<exists>news. out = acc @ concat news \<and>
                        map (\<lambda>z. map (body z) hours) (z # zs) = map (map Inr) news)"
    by (auto simp: Cons_eq_map_conv)
  finally show ?case .
qed

lemma for_hours_error:
  assumes "\<And>ts e. body ts = Inl e \<Longrightarrow> e = IndexError"
  shows "for_hours body hs acc = Inl e \<Longrightarrow> e = IndexError"
  by (induction hs arbitrary: acc) (auto split: sum.splits dest: assms)

lemma for_zones_error:
  assumes "\<And>z ts e. body z ts = Inl e \<Longrightarrow> e = IndexError"
  shows "for_zones body hours zs acc = Inl e \<Longrightarrow> e = IndexError"
proof (induction zs arbitrary: acc)
  case Nil
  then show ?case by simp
next
  case (Cons z zs)
  then show ?case
    using for_hours_error [of "body z" hours acc e] assms
    by (auto split: sum.splits)
qed

lemma map_Inr_key:
  assumes "map f xs = map Inr ys" and "\<And>x y. f x = Inr y \<Longrightarrow> k y = g x"
  shows "map k ys = map g xs"
  using assms(1)
proof (induction xs arbitrary: ys)
  case Nil
  then show ?case by simp
next
  case (Cons x xs)
  then obtain y ys' where "ys = y # ys'" "f x = Inr y" "map f xs = map Inr ys'"
    by (auto simp: Cons_eq_map_conv)
  then show ?case using Cons.IH assms(2) by simp
qed

lemma map_Inr_mem:
  assumes "map f xs = map Inr ys" "y \<in> set ys"
  shows "\<exists>x \<in> set xs. f x = Inr y"
proof -
  from assms(2) obtain i where i: "i < length ys" "ys ! i = y"
    by (auto simp: in_set_conv_nth)
  have len: "length xs = length ys" using assms(1) by (metis length_map)
  have "map f xs ! i = map Inr ys ! i" using assms(1) by simp
  then have "f (xs ! i) = Inr y" using i len by simp
  then show ?thesis using i len by (metis nth_mem)
qed

lemma map_Inr_all:
  assumes "\<forall>x \<in> set xs. \<exists>y. f x = Inr y"
  shows "\<exists>ys. map f xs = map Inr ys"
  using assms
proof (induction xs)
  case Nil
  then show ?case by simp
next
  case (Cons x xs)
  then obtain y ys where "f x = Inr y" "map f xs = map Inr ys" by auto
  then have "map f (x # xs) = map Inr (y # ys)" by simp
  then show ?case by blast
qed

lemma zones_key:
  assumes "map (\<lambda>z. map (body z) hours) zs = map (map Inr) news"
    and "\<And>z ts r. body z ts = Inr r \<Longrightarrow> k r = (z, g ts)"
  shows "map k (concat news) = List.product zs (map g hours)"
  using assms(1)
proof (induction zs arbitrary: news)
  case Nil
  then show ?case by simp
next
  case (Cons z zs)
  then obtain new news' where n: "news = new # news'" "map (body z) hours = map Inr new"
      "map (\<lambda>z. map (body z) hours) zs = map (map Inr) news'"
    by (auto simp: Cons_eq_map_conv)
  have "map k new = map (\<lambda>ts. (z, g ts)) hours"
    by (rule map_Inr_key [OF n(2)]) (rule assms(2))
  moreover have "map k (concat news') = List.product zs (map g hours)"
    by (rule Cons.IH [OF n(3)])
  ultimately show ?case unfolding n(1) by (simp add: comp_def)
qed

lemma zones_mem:
  assumes "map (\<lambda>z. map (body z) hours) zs = map (map Inr) news" "r \<in> set (concat news)"
  shows "\<exists>z \<in> set zs. \<exists>ts \<in> set hours. body z ts = Inr r"
proof -
  from assms(2) obtain new where new: "new \<in> set news" "r \<in> set new" by auto
  then obtain i where i: "i < length news" "news ! i = new" by (auto simp: in_set_conv_nth)
  have len: "length zs = length news" using assms(1) by (metis length_map)
  have "map (\<lambda>z. map (body z) hours) zs ! i = map (map Inr) news ! i" using assms(1) by simp
  then have m: "map (body (zs ! i)) hours = map Inr new" using i len by simp
  from map_Inr_mem [OF m new(2)] i(1) len show ?thesis by (metis nth_mem)
qed

lemma zones_all:
  assumes "\<forall>z \<in> set zs. \<forall>ts \<in> set hours. \<exists>r. body z ts = Inr r"
  shows "\<exists>news. map (\<lambda>z. map (body z) hours) zs = map (map Inr) news"
  using assms
proof (induction zs)
  case Nil
  then show ?case by simp
next
  case (Cons z zs)
  then obtain news where a: "map (\<lambda>z. map (body z) hours) zs = map (map Inr) news" by auto
  from Cons.prems obtain new where b: "map (body z) hours = map Inr new"
    using map_Inr_all [of hours "body z"] by auto
  from a b have "map (\<lambda>z. map (body z) hours) (z # zs) = map (map Inr) (new # news)" by simp
  then show ?case by blast
qed

lemma slot_row_Inr:
  "slot_row means z_h h target dow z ts = Inr r \<longleftrightarrow>
     (\<exists>v. slot_pred means z_h h z dow (ts_hour ts) = Inr v \<and>
          r = \<lparr>date = ts_date target, pzone = z, ptimestamp = ts, pred_load_mw = py_round v\<rparr>)"
  unfolding slot_row_def by (auto split: sum.splits)

lemma slot_row_error:
  "slot_row means z_h h target dow z ts = Inl e \<Longrightarrow> e = IndexError"
  unfolding slot_row_def by (auto split: sum.splits dest: slot_pred_error)

lemma for_zones_rows:
  assumes "for_zones (slot_row means z_h h target dow) hours zs [] = Inr preds"
  shows "map (\<lambda>r. (pzone r, ts_hour (ptimestamp r))) preds = List.product zs (map ts_hour hours)"
    and "\<forall>r \<in> set preds. date r = ts_date target \<and> pzone r \<in> set zs \<and> ptimestamp r \<in> set hours \<and>
           (\<exists>v. slot_pred means z_h h (pzone r) dow (ts_hour (ptimestamp r)) = Inr v \<and>
                pred_load_mw r = py_round v)"
proof -
  from assms obtain news where n: "preds = concat news"
      "map (\<lambda>z. map (slot_row means z_h h target dow z) hours) zs = map (map Inr) news"
    unfolding for_zones_Inr by auto
  show "map (\<lambda>r. (pzone r, ts_hour (ptimestamp r))) preds = List.product zs (map ts_hour hours)"
    unfolding n(1) by (rule zones_key [OF n(2)]) (auto simp: slot_row_Inr)
  show "\<forall>r \<in> set preds. date r = ts_date target \<and> pzone r \<in> set zs \<and> ptimestamp r \<in> set hours \<and>
           (\<exists>v. slot_pred means z_h h (pzone r) dow (ts_hour (ptimestamp r)) = Inr v \<and>
                pred_load_mw r = py_round v)"
  proof
    fix r assume "r \<in> set preds"
    then obtain z ts where "z \<in> set zs" "ts \<in> set hours"
        "slot_row means z_h h target dow z ts = Inr r"
      using zones_mem [OF n(2)] n(1) by blast
    then show "date r = ts_date target \<and> pzone r \<in> set zs \<and> ptimestamp r \<in> set hours \<and>
           (\<exists>v. slot_pred means z_h h (pzone r) dow (ts_hour (ptimestamp r)) = Inr v \<and>
                pred_load_mw r = py_round v)"
      by (auto simp: slot_row_Inr)
  qed
qed

lemma for_zones_total:
  assumes "\<forall>z \<in> set zs. \<forall>ts \<in> set hours. \<exists>r. body z ts = Inr r"
  shows "\<exists>preds. for_zones body hours zs [] = Inr preds"
  using zones_all [OF assms] unfolding for_zones_Inr by auto

lemma for_zones_fails:
  assumes "z \<in> set zs" "ts \<in> set hours" "body z ts = Inl e"
  shows "\<exists>e'. for_zones body hours zs acc = Inl e'"
proof (cases "for_zones body hours zs acc")
  case (Inl e')
  then show ?thesis by blast
next
  case (Inr out)
  then obtain news where n: "map (\<lambda>z. map (body z) hours) zs = map (map Inr) news"
    unfolding for_zones_Inr by auto
  from assms(1) obtain i where i: "i < length zs" "zs ! i = z" by (auto simp: in_set_conv_nth)
  from assms(2) obtain j where j: "j < length hours" "hours ! j = ts" by (auto simp: in_set_conv_nth)
  have "length news = length zs" using n by (metis length_map)
  have "map (\<lambda>z. map (body z) hours) zs ! i = map (map Inr) news ! i" using n by simp
  then have m: "map (body z) hours = map Inr (news ! i)" using i \<open>length news = length zs\<close> by simp
  then have "length (news ! i) = length hours" by (metis length_map)
  have "map (body z) hours ! j = map Inr (news ! i) ! j" using m by simp
  then have "body z ts = Inr (news ! i ! j)" using j \<open>length (news ! i) = length hours\<close> by simp
  with assms(3) show ?thesis by simp
qed

subsection \<open>predict_day\<close>

lemma parquet_ensure_dirs [simp]: "parquet (ensure_dirs s) = parquet s"
  by (simp add: ensure_dirs_def)

lemma predict_day_Inr:
  "fst (predict_day L date_str model_path zones out_csv s) = Inr preds \<longleftrightarrow>
     (\<exists>t means. Timestamp L date_str = Some t \<and> parquet s model_path = Some means \<and>
        for_zones (slot_row means (zone_hour_means means) (hour_means means) (normalize_ts t)
                     (ts_dayofweek (normalize_ts t)))
          (date_range (normalize_ts t))
          (requested_zones means zones) [] = Inr preds)"
  unfolding predict_day_def Let_def
  by (auto split: option.splits sum.splits)

lemma predict_day_Inl:
  assumes "Timestamp L date_str = Some t" "parquet s model_path = Some means"
  shows "fst (predict_day L date_str model_path zones out_csv s) = Inl e \<longleftrightarrow>
     for_zones (slot_row means (zone_hour_means means) (hour_means means) (normalize_ts t)
                     (ts_dayofweek (normalize_ts t)))
          (date_range (normalize_ts t))
          (requested_zones means zones) [] = Inl e"
  unfolding predict_day_def Let_def using assms
  by (auto split: option.splits sum.splits)

lemma product_map_snd:
  "map (\<lambda>p. (fst p, g (snd p))) (List.product zs ys) = List.product zs (map g ys)"
  by (induction zs) (simp_all add: comp_def)

lemma predict_day_rows:
  assumes "Timestamp L date_str = Some t" "parquet s model_path = Some means"
    and "fst (predict_day L date_str model_path zones out_csv s) = Inr preds"
  shows "map (\<lambda>r. (pzone r, ts_hour (ptimestamp r))) preds =
           List.product (requested_zones means zones) [0..<24]"
    and "\<forall>r \<in> set preds. date r = ts_date (normalize_ts t) \<and>
           (\<exists>v. slot_pred means (zone_hour_means means) (hour_means means) (pzone r)
                  (ts_dayofweek (normalize_ts t)) (ts_hour (ptimestamp r)) = Inr v \<and>
                pred_load_mw r = py_round v)"
proof -
  from assms have fz: "for_zones (slot_row means (zone_hour_means means) (hour_means means)
        (normalize_ts t) (ts_dayofweek (normalize_ts t))) (date_range (normalize_ts t))
        (requested_zones means zones) [] = Inr preds"
    unfolding predict_day_Inr by auto
  from for_zones_rows(1) [OF fz] show "map (\<lambda>r. (pzone r, ts_hour (ptimestamp r))) preds =
           List.product (requested_zones means zones) [0..<24]"
    by (simp only: map_ts_hour_date_range)
  from for_zones_rows(2) [OF fz] show "\<forall>r \<in> set preds. date r = ts_date (normalize_ts t) \<and>
           (\<exists>v. slot_pred means (zone_hour_means means) (hour_means means) (pzone r)
                  (ts_dayofweek (normalize_ts t)) (ts_hour (ptimestamp r)) = Inr v \<and>
                pred_load_mw r = py_round v)"
    by blast
qed

lemma predict_day_row_value:
  assumes "Timestamp L date_str = Some t" "parquet s model_path = Some means"
    and "fst (predict_day L date_str model_path zones out_csv s) = Inr preds"
    and "slot_pred means (zone_hour_means means) (hour_means means) z
           (ts_dayofweek (normalize_ts t)) hr = Inr v"
    and "r \<in> set preds" "pzone r = z" "ts_hour (ptimestamp r) = hr"
  shows "pred_load_mw r = py_round v"
  using predict_day_rows(2) [OF assms(1-3)] assms(4-7) by fastforce

lemma predict_day_row_exists:
  assumes "Timestamp L date_str = Some t" "parquet s model_path = Some means"
    and "fst (predict_day L date_str model_path zones out_csv s) = Inr preds"
    and "z \<in> set (requested_zones means zones)" "hr < 24"
  shows "\<exists>r \<in> set preds. pzone r = z \<and> ts_hour (ptimestamp r) = hr"
proof -
  have "(z, hr) \<in> set (List.product (requested_zones means zones) [0..<24])"
    using assms(4,5) by simp
  then have "(z, hr) \<in> set (map (\<lambda>r. (pzone r, ts_hour (ptimestamp r))) preds)"
    using predict_day_rows(1) [OF assms(1-3)] by simp
  then show ?thesis by auto
qed

lemma hour_in_date_range:
  assumes "ts \<in> set (date_range (normalize_ts t))"
  shows "ts_hour ts < 24"
proof -
  have "ts_hour ts \<in> set (map ts_hour (date_range (normalize_ts t)))" using assms by simp
  then show ?thesis unfolding map_ts_hour_date_range by simp
qed

lemma predict_day_covered:
  assumes "Timestamp L date_str = Some t" "parquet s model_path = Some means"
    and "\<forall>hr < 24. \<exists>r \<in> set means. hour r = hr"
  shows "\<exists>preds. fst (predict_day L date_str model_path zones out_csv s) = Inr preds"
proof -
  have "\<forall>z \<in> set (requested_zones means zones). \<forall>ts \<in> set (date_range (normalize_ts t)).
          \<exists>r. slot_row means (zone_hour_means means) (hour_means means) (normalize_ts t)
                 (ts_dayofweek (normalize_ts t)) z ts = Inr r"
  proof (intro ballI)
    fix z ts assume "ts \<in> set (date_range (normalize_ts t))"
    then have "\<exists>r \<in> set means. hour r = ts_hour ts"
      using assms(3) hour_in_date_range by blast
    from slot_pred_covered [OF this]
    show "\<exists>r. slot_row means (zone_hour_means means) (hour_means means) (normalize_ts t)
                 (ts_dayofweek (normalize_ts t)) z ts = Inr r"
      unfolding slot_row_Inr by blast
  qed
  from for_zones_total [OF this] show ?thesis
    unfolding predict_day_Inr using assms(1,2) by simp
qed

lemma predict_day_uncovered:
  assumes "Timestamp L date_str = Some t" "parquet s model_path = Some means"
    and "requested_zones means zones \<noteq> []" "hr < 24" "\<forall>r \<in> set means. hour r \<noteq> hr"
  shows "fst (predict_day L date_str model_path zones out_csv s) = Inl IndexError"
proof -
  let ?body = "slot_row means (zone_hour_means means) (hour_means means) (normalize_ts t)
                 (ts_dayofweek (normalize_ts t))"
  from assms(3) obtain z where z: "z \<in> set (requested_zones means zones)"
    by (cases "requested_zones means zones") auto
  have "hr \<in> set (map ts_hour (date_range (normalize_ts t)))"
    unfolding map_ts_hour_date_range using assms(4) by simp
  then obtain ts where ts: "ts \<in> set (date_range (normalize_ts t))" "ts_hour ts = hr" by auto
  have "?body z ts = Inl IndexError"
    unfolding slot_row_def ts(2) slot_pred_uncovered [OF assms(5)] by simp
  from for_zones_fails [where body = ?body, OF z ts(1) this] obtain e where
    e: "for_zones ?body (date_range (normalize_ts t)) (requested_zones means zones) [] = Inl e"
    by blast
  then have "e = IndexError" by (rule for_zones_error [rotated]) (rule slot_row_error)
  with e show ?thesis unfolding predict_day_Inl [OF assms(1,2)] by simp
qed



lemma example_Timestamp_monday: "Timestamp example_lib ''2025-11-10'' = Some 1762732800000000000"
  by (simp add: example_lib_def)

lemma example_Timestamp_tuesday: "Timestamp example_lib ''2025-11-11'' = Some 1762819200000000000"
  by (simp add: example_lib_def)

lemma example_parquet: "parquet (example_fs means) ''m.parquet'' = Some means"
  by (simp add: example_fs_def)


lemma example_tuesday: "ts_dayofweek (normalize_ts 1762819200000000000) = 1"
  by (simp add: ts_dayofweek_def normalize_ts_def ns_per_day_def ns_per_hour_def)

lemma hour_full_day_model: "hour ` set full_day_model = {0..<24}"
proof -
  have "hour ` set full_day_model = (\<lambda>i. i) ` {0..<24}"
    unfolding full_day_model_def by (simp add: image_image del: upt.simps)
  then show ?thesis by simp
qed

lemma full_day_model_covered: "\<forall>hr < 24. \<exists>r \<in> set full_day_model. hour r = hr"
proof (intro allI impI)
  fix hr :: nat assume "hr < 24"
  then have "hr \<in> hour ` set full_day_model" unfolding hour_full_day_model by simp
  then show "\<exists>r \<in> set full_day_model. hour r = hr" by auto
qed

lemma round_example: "py_round (25002 / 5) = 5000"
  by code_simp

subsection \<open>Dropping duplicates\<close>










subsection \<open>The table of means\<close>

lemma mean_key_mk [simp]: "mean_key (mk_mean_row (k, v)) = k"
  by (simp add: mean_key_def mk_mean_row_def)

lemma load_mean_mk [simp]: "load_mean (mk_mean_row (k, v)) = v"
  by (simp add: mk_mean_row_def)


lemma hist_avg_text:
  assumes "\<exists>r \<in> set df. \<not> is_num (load_mw r)"
  shows "hist_avg df = Inl TypeError"
  using assms by (simp add: hist_avg_def)








subsection \<open>Normalised zone names\<close>






lemma dropWhile_id: "xs = [] \<or> \<not> P (hd xs) \<Longrightarrow> dropWhile P xs = xs"
  by (cases xs) auto

lemma hd_dropWhile_not: "dropWhile P xs \<noteq> [] \<Longrightarrow> \<not> P (hd (dropWhile P xs))"
  by (rule hd_dropWhile)

lemma strip_idem: "strip (strip s) = strip s"
proof -
  define t where "t = dropWhile is_space s"
  define u where "u = rev (dropWhile is_space (rev t))"
  have su: "strip s = u" by (simp add: strip_def t_def u_def)
  have t_hd: "t = [] \<or> \<not> is_space (hd t)"
    unfolding t_def using hd_dropWhile [of is_space s] by blast
  have ru: "rev u = dropWhile is_space (rev t)" by (simp add: u_def)
  have u_last: "rev u = [] \<or> \<not> is_space (hd (rev u))"
    unfolding ru using hd_dropWhile [of is_space "rev t"] by blast
  have u_hd: "u = [] \<or> \<not> is_space (hd u)"
  proof (cases "u = []")
    case True
    then show ?thesis by simp
  next
    case False
    have "rev t = takeWhile is_space (rev t) @ rev u"
      unfolding ru by simp
    then have "t = u @ rev (takeWhile is_space (rev t))"
      by (metis rev_append rev_rev_ident)
    then have "hd t = hd u" using False by (metis hd_append2)
    moreover have "t \<noteq> []" using False \<open>t = u @ _\<close> by auto
    ultimately show ?thesis using t_hd by simp
  qed
  have "dropWhile is_space u = u" using u_hd by (rule dropWhile_id)
  moreover have "dropWhile is_space (rev u) = rev u" using u_last by (rule dropWhile_id)
  ultimately have "strip u = u" by (simp add: strip_def)
  then show ?thesis unfolding su .
qed



lemma cli_zones_stripped:
  assumes "cli_zones a = Some zs" "z \<in> set zs"
  shows "strip z = z \<and> z \<noteq> []"
  using assms unfolding cli_zones_def
  by (auto split: option.splits if_splits simp: strip_idem)

subsection \<open>Reading the CSV files\<close>




lemma read_all_Inr:
  "read_all L s files = Inr frames \<longleftrightarrow> map (read_std_pjm L s) files = map Inr frames"
proof (induction files arbitrary: frames)
  case Nil
  then show ?case by auto
next
  case (Cons f files)
  show ?case
  proof (cases "read_std_pjm L s f")
    case (Inl e)
    then show ?thesis by (auto simp: Cons_eq_map_conv)
  next
    case (Inr fr)
    show ?thesis
    proof (cases "read_all L s files")
      case (Inl e)
      then have "\<not> (\<exists>frs. map (read_std_pjm L s) files = map Inr frs)"
        using Cons.IH by auto
      then show ?thesis using Inr Inl by (auto simp: Cons_eq_map_conv)
    next
      case (Inr frs)
      then have "map (read_std_pjm L s) files = map Inr frs" using Cons.IH by simp
      then show ?thesis using \<open>read_std_pjm L s f = Inr fr\<close> Inr
        by (auto simp: Cons_eq_map_conv)
    qed
  qed
qed


lemma read_all_fails:
  assumes "f \<in> set files" "read_std_pjm L s f = Inl e"
  shows "\<exists>e'. read_all L s files = Inl e'"
proof (cases "read_all L s files")
  case (Inl e')
  then show ?thesis by blast
next
  case (Inr frames)
  then have m: "map (read_std_pjm L s) files = map Inr frames" by (simp add: read_all_Inr)
  from assms(1) obtain i where i: "i < length files" "files ! i = f"
    by (auto simp: in_set_conv_nth)
  have "length frames = length files" using m by (metis length_map)
  have "map (read_std_pjm L s) files ! i = map Inr frames ! i" using m by simp
  then have "read_std_pjm L s f = Inr (frames ! i)"
    using i \<open>length frames = length files\<close> by simp
  with assms(2) show ?thesis by simp
qed

lemma find_col_None: "find_col cands cols = None \<longleftrightarrow> set cands \<inter> set cols = {}"
  unfolding find_col_def find_None_iff by auto

lemma read_std_pjm_missing_column:
  assumes "csv_in s f = Some df"
    and "set ts_cands \<inter> set (map lower (columns df)) = {} \<or>
         set zone_cands \<inter> set (map lower (columns df)) = {} \<or>
         set load_cands \<inter> set (map lower (columns df)) = {}"
  shows "\<exists>m. read_std_pjm L s f = Inl (ValueError m)"
  using assms unfolding read_std_pjm_def Let_def find_col_None [symmetric]
  by (auto split: option.splits)

lemma main_train_Inl_unchanged:
  assumes "load_pjm_glob L pattern s = Inl e"
  shows "main_train L pattern out s = (Inl e, s)"
  using assms by (simp add: main_train_def)

lemma load_pjm_glob_no_files:
  "glob L pattern = [] \<Longrightarrow> load_pjm_glob L pattern s = Inl FileNotFoundError"
  by (simp add: load_pjm_glob_def)

lemma load_pjm_glob_bad_file:
  assumes "f \<in> set (glob L pattern)" "read_std_pjm L s f = Inl e"
  shows "\<exists>e'. load_pjm_glob L pattern s = Inl e'"
proof -
  have "f \<in> set (sort (glob L pattern))" using assms(1) by simp
  from read_all_fails [OF this assms(2)] obtain e' where
    "read_all L s (sort (glob L pattern)) = Inl e'" by blast
  then show ?thesis by (auto simp: load_pjm_glob_def Let_def)
qed


subsection \<open>Helpers shared by the claims\<close>



lemma exact_filter_split:
  "filter (\<lambda>r. mzone r = z \<and> day_of_week r = d \<and> hour r = hr) means =
     filter (\<lambda>r. day_of_week r = d) (filter (\<lambda>r. mzone r = z \<and> hour r = hr) means)"
  by (induction means) auto






subsection \<open>The example inputs\<close>

lemma one_entry_no_hour0: "\<forall>r \<in> set one_entry_model. hour r \<noteq> 0"
  by (simp add: one_entry_model_def)

lemma zones_one_entry: "requested_zones one_entry_model None = [''MZ'']"
  by (simp add: requested_zones_def all_zones_def one_entry_model_def)





lemma example_bad_file:
  "\<exists>f \<in> set (glob example_lib ''data/*.csv''). \<exists>df. csv_in example_csv_fs f = Some df \<and>
     (set ts_cands \<inter> set (map lower (columns df)) = {} \<or>
      set zone_cands \<inter> set (map lower (columns df)) = {} \<or>
      set load_cands \<inter> set (map lower (columns df)) = {})"
proof -
  let ?df = "\<lparr>columns = [''timestamp'', ''zone'', ''temperature''], cells = []\<rparr>"
  have 1: "''data/c.csv'' \<in> set (glob example_lib ''data/*.csv'')"
    by (simp add: example_lib_def)
  have 2: "csv_in example_csv_fs ''data/c.csv'' = Some ?df"
    by (simp add: example_csv_fs_def)
  have 3: "set load_cands \<inter> set (map lower (columns ?df)) = {}"
    by code_simp
  from 1 2 3 show ?thesis by blast
qed





lemma full_day_model_mz14:
  "filter (\<lambda>r. mzone r = ''MZ'' \<and> hour r = 14) full_day_model =
     [\<lparr>mzone = ''MZ'', day_of_week = 0, hour = 14, load_mean = 25002 / 5\<rparr>]"
  by code_simp




section \<open>The claims\<close>

text \<open>
  Claim C1, as amended. A model that is merely non-empty is not enough for
  \<^verbatim>\<open>predict_day\<close> to fill every slot. When the model has at least one entry for
  every hour of the day, \<^verbatim>\<open>predict_day\<close> returns, for every date and every zone list,
  exactly one row per (zone, hour) slot, zone by zone and hour by hour, 24 rows per zone,
  each carrying an integer prediction.
\<close>

theorem predict_day_total_when_hours_covered:
  assumes "Timestamp L date_str = Some t" and "parquet s model_path = Some means"
    and "\<forall>hr < 24. \<exists>r \<in> set means. hour r = hr"
  shows "\<exists>preds. fst (predict_day L date_str model_path zones out_csv s) = Inr preds \<and>
           map (\<lambda>r. (pzone r, ts_hour (ptimestamp r))) preds =
             List.product (requested_zones means zones) [0..<24] \<and>
           length preds = 24 * length (requested_zones means zones)"
proof -
  from predict_day_covered [OF assms] obtain preds where
    p: "fst (predict_day L date_str model_path zones out_csv s) = Inr preds" by blast
  have m: "map (\<lambda>r. (pzone r, ts_hour (ptimestamp r))) preds =
             List.product (requested_zones means zones) [0..<24]"
    by (rule predict_day_rows(1) [OF assms(1,2) p])
  have "length (map (\<lambda>r. (pzone r, ts_hour (ptimestamp r))) preds) =
          length (List.product (requested_zones means zones) [0..<24])"
    by (simp only: m)
  then have "length preds = 24 * length (requested_zones means zones)"
    by (simp add: length_product)
  with p m show ?thesis by blast
qed

theorem predict_day_total_witness:
  "\<exists>preds. fst (predict_day example_lib ''2025-11-10'' ''m.parquet'' None None
                  (example_fs full_day_model)) = Inr preds \<and>
     map (\<lambda>r. (pzone r, ts_hour (ptimestamp r))) preds =
       List.product (requested_zones full_day_model None) [0..<24] \<and>
     length preds = 24 * length (requested_zones full_day_model None)"
  using predict_day_total_when_hours_covered
    [OF example_Timestamp_monday example_parquet full_day_model_covered]
  by simp

text \<open>
  Claim C1 as stated fails: the model of one entry is not empty, its only zone is
  requested by default, and \<^verbatim>\<open>predict_day\<close> raises IndexError at the first hour that
  no entry of the model has.
\<close>

theorem nonempty_model_predict_day_raises:
  "one_entry_model \<noteq> [] \<and> requested_zones one_entry_model None = [''MZ''] \<and>
   fst (predict_day example_lib ''2025-11-10'' ''m.parquet'' None None
          (example_fs one_entry_model)) = Inl IndexError"
proof -
  have "fst (predict_day example_lib ''2025-11-10'' ''m.parquet'' None None
          (example_fs one_entry_model)) = Inl IndexError"
    by (rule predict_day_uncovered [OF example_Timestamp_monday example_parquet _ _
          one_entry_no_hour0]) (simp_all add: zones_one_entry)
  then show ?thesis by (simp add: zones_one_entry) (simp add: one_entry_model_def)
qed







text \<open>
  Claim C7. The rows \<^verbatim>\<open>predict_day\<close> returns are a function of the contents of the model
  file, the date string and the zone argument alone: two calls that agree on these
  return the same rows in the same order (or raise the same error), whatever else the
  file system holds and wherever the CSV is written. Without a zone argument the zones
  are those of the model, each once, in ascending order.
\<close>

theorem predict_day_deterministic:
  assumes "parquet s model_path = parquet s' model_path"
  shows "fst (predict_day L date_str model_path zones out_csv s) =
           fst (predict_day L date_str model_path zones out_csv' s') \<and>
         (\<forall>means. parquet s model_path = Some means \<longrightarrow>
            fst (predict_day L date_str model_path None out_csv s) =
              fst (predict_day L date_str model_path (Some (all_zones means)) out_csv s) \<and>
            sorted (all_zones means) \<and> distinct (all_zones means) \<and>
            set (all_zones means) = mzone ` set means)"
proof (intro conjI allI impI)
  show "fst (predict_day L date_str model_path zones out_csv s) =
           fst (predict_day L date_str model_path zones out_csv' s')"
    unfolding predict_day_def Let_def parquet_ensure_dirs using assms
    by (simp split: option.splits sum.splits)
next
  fix means assume "parquet s model_path = Some means"
  then show "fst (predict_day L date_str model_path None out_csv s) =
              fst (predict_day L date_str model_path (Some (all_zones means)) out_csv s)"
    unfolding predict_day_def Let_def parquet_ensure_dirs
    by (simp add: requested_zones_def split: option.splits sum.splits)
next
  fix means
  show "sorted (all_zones means)" "distinct (all_zones means)"
    "set (all_zones means) = mzone ` set means"
    by (simp_all add: all_zones_def)
qed

theorem predict_day_deterministic_witness:
  "fst (predict_day example_lib ''2025-11-10'' ''m.parquet'' None None (example_fs full_day_model)) =
     fst (predict_day example_lib ''2025-11-10'' ''m.parquet'' None (Some ''out.csv'')
            ((example_fs full_day_model)\<lparr>dirs := {''predictions''}\<rparr>)) \<and>
   fst (predict_day example_lib ''2025-11-10'' ''m.parquet'' None None (example_fs full_day_model)) =
     fst (predict_day example_lib ''2025-11-10'' ''m.parquet'' (Some (all_zones full_day_model))
            None (example_fs full_day_model)) \<and>
   sorted (all_zones full_day_model) \<and> distinct (all_zones full_day_model) \<and>
   set (all_zones full_day_model) = mzone ` set full_day_model"
proof -
  have a: "parquet (example_fs full_day_model) ''m.parquet'' =
             parquet ((example_fs full_day_model)\<lparr>dirs := {''predictions''}\<rparr>) ''m.parquet''"
    by simp
  from predict_day_deterministic [OF a, of example_lib "''2025-11-10''" None None
      "Some ''out.csv''"] example_parquet [of full_day_model]
  show ?thesis by blast
qed



text \<open>
  Claim C9. When the glob pattern matches no file, or a matched CSV has none of the
  accepted names for its timestamp column, for its zone column or for its load column,
  the \<^verbatim>\<open>train\<close> command ends with an error and leaves the file system as it was: no
  directory is made and no model is written. With no file the error is FileNotFoundError.
\<close>

theorem training_aborts_on_bad_input:
  assumes "glob L pattern = [] \<or>
           (\<exists>f \<in> set (glob L pattern). \<exists>df. csv_in s f = Some df \<and>
              (set ts_cands \<inter> set (map lower (columns df)) = {} \<or>
               set zone_cands \<inter> set (map lower (columns df)) = {} \<or>
               set load_cands \<inter> set (map lower (columns df)) = {}))"
  shows "(\<exists>e. main_train L pattern out s = (Inl e, s)) \<and>
         (glob L pattern = [] \<longrightarrow> main_train L pattern out s = (Inl FileNotFoundError, s))"
proof -
  have n: "main_train L pattern out s = (Inl FileNotFoundError, s)" if "glob L pattern = []"
    by (rule main_train_Inl_unchanged [OF load_pjm_glob_no_files [OF that]])
  have "\<exists>e. main_train L pattern out s = (Inl e, s)"
  proof (cases "glob L pattern = []")
    case True
    then show ?thesis using n by blast
  next
    case False
    with assms obtain f df where f: "f \<in> set (glob L pattern)" "csv_in s f = Some df"
      and c: "set ts_cands \<inter> set (map lower (columns df)) = {} \<or>
              set zone_cands \<inter> set (map lower (columns df)) = {} \<or>
              set load_cands \<inter> set (map lower (columns df)) = {}"
      by blast
    from read_std_pjm_missing_column [OF f(2) c] obtain m where
      "read_std_pjm L s f = Inl (ValueError m)" by blast
    from load_pjm_glob_bad_file [OF f(1) this] obtain e where
      "load_pjm_glob L pattern s = Inl e" by blast
    from main_train_Inl_unchanged [OF this] show ?thesis by blast
  qed
  with n show ?thesis by blast
qed

theorem training_aborts_witness:
  "\<exists>e. main_train example_lib ''data/*.csv'' ''m.parquet'' example_csv_fs = (Inl e, example_csv_fs)"
  using training_aborts_on_bad_input [OF disjI2 [OF example_bad_file]] by blast




text \<open>
  Claim C8, as amended. With a model whose only entry of zone MZ at hour 14 is
  (MZ, Monday, 14) with mean 5000.4, the model of that one entry among them, the body of
  the loop of \<^verbatim>\<open>predict_day\<close> makes, for zone MZ at 14:00 of a Monday and of a Tuesday,
  the row with \<^verbatim>\<open>pred_load_mw\<close> 5000 (by the exact entry on the Monday, by the
  zone-hour mean on the Tuesday), and every row \<^verbatim>\<open>predict_day\<close> returns for that slot
  carries 5000.
\<close>

theorem example_slot_monday_tuesday:
  assumes "Timestamp L date_str = Some t" and "parquet s model_path = Some means"
    and "filter (\<lambda>r. mzone r = ''MZ'' \<and> hour r = 14) means =
           [\<lparr>mzone = ''MZ'', day_of_week = 0, hour = 14, load_mean = 25002 / 5\<rparr>]"
    and "ts_dayofweek (normalize_ts t) = 0 \<or> ts_dayofweek (normalize_ts t) = 1"
  shows "slot_row means (zone_hour_means means) (hour_means means) (normalize_ts t)
           (ts_dayofweek (normalize_ts t)) ''MZ'' (normalize_ts t + 14 * ns_per_hour) =
         Inr \<lparr>date = ts_date (normalize_ts t), pzone = ''MZ'',
              ptimestamp = normalize_ts t + 14 * ns_per_hour, pred_load_mw = 5000\<rparr> \<and>
         (\<forall>preds. fst (predict_day L date_str model_path zones out_csv s) = Inr preds \<longrightarrow>
            (\<forall>r \<in> set preds. pzone r = ''MZ'' \<and> ts_hour (ptimestamp r) = 14 \<longrightarrow>
               pred_load_mw r = 5000))"
proof -
  let ?e = "\<lparr>mzone = ''MZ'', day_of_week = 0, hour = 14, load_mean = 25002 / 5\<rparr>"
  let ?dow = "ts_dayofweek (normalize_ts t)"
  have sp: "slot_pred means (zone_hour_means means) (hour_means means) ''MZ'' ?dow 14 =
              Inr (25002 / 5)"
  proof (cases "?dow = 0")
    case True
    have "filter (\<lambda>r. mzone r = ''MZ'' \<and> day_of_week r = ?dow \<and> hour r = 14) means = [?e]"
      unfolding exact_filter_split assms(3) using True by simp
    then show ?thesis
      using slot_pred_exact [of "''MZ''" ?dow 14 means] by simp
  next
    case False
    then have "?dow = 1" using assms(4) by simp
    then have e: "filter (\<lambda>r. mzone r = ''MZ'' \<and> day_of_week r = ?dow \<and> hour r = 14) means = []"
      unfolding exact_filter_split assms(3) by simp
    have "?e \<in> set (filter (\<lambda>r. mzone r = ''MZ'' \<and> hour r = 14) means)"
      unfolding assms(3) by simp
    then have "?e \<in> set means" by simp
    then have x: "\<exists>r \<in> set means. mzone r = ''MZ'' \<and> hour r = 14"
      by (rule bexI [rotated]) simp
    show ?thesis
      unfolding slot_pred_zone_hour [OF e x] assms(3) by (simp add: mean_def)
  qed
  have h: "ts_hour (normalize_ts t + 14 * ns_per_hour) = 14"
    using ts_hour_range [of 14 t] by simp
  show ?thesis
  proof (intro conjI allI impI ballI)
    show "slot_row means (zone_hour_means means) (hour_means means) (normalize_ts t) ?dow ''MZ''
            (normalize_ts t + 14 * ns_per_hour) =
          Inr \<lparr>date = ts_date (normalize_ts t), pzone = ''MZ'',
               ptimestamp = normalize_ts t + 14 * ns_per_hour, pred_load_mw = 5000\<rparr>"
      unfolding slot_row_def h sp by (simp add: round_example)
  next
    fix preds r
    assume "fst (predict_day L date_str model_path zones out_csv s) = Inr preds"
      and "r \<in> set preds" and "pzone r = ''MZ'' \<and> ts_hour (ptimestamp r) = 14"
    then have "pred_load_mw r = py_round (25002 / 5)"
      using predict_day_row_value [OF assms(1,2) _ sp] by blast
    then show "pred_load_mw r = 5000" by (simp add: round_example)
  qed
qed

theorem example_slot_tuesday_witness:
  "\<exists>preds. fst (predict_day example_lib ''2025-11-11'' ''m.parquet'' None None
                  (example_fs full_day_model)) = Inr preds \<and>
     (\<exists>r \<in> set preds. pzone r = ''MZ'' \<and> ts_hour (ptimestamp r) = 14 \<and> pred_load_mw r = 5000)"
proof -
  have d: "ts_dayofweek (normalize_ts 1762819200000000000) = 0 \<or>
           ts_dayofweek (normalize_ts 1762819200000000000) = 1"
    by (simp add: example_tuesday)
  note inst = example_slot_monday_tuesday
    [OF example_Timestamp_tuesday example_parquet full_day_model_mz14 d, of None None]
  from predict_day_covered [OF example_Timestamp_tuesday example_parquet full_day_model_covered]
  obtain preds where p: "fst (predict_day example_lib ''2025-11-11'' ''m.parquet''
      None None (example_fs full_day_model)) = Inr preds"
    by blast
  have "''MZ'' \<in> set (requested_zones full_day_model None)"
    by code_simp
  from predict_day_row_exists [OF example_Timestamp_tuesday example_parquet p this, of 14]
  obtain r where r: "r \<in> set preds" "pzone r = ''MZ''" "ts_hour (ptimestamp r) = 14"
    by auto
  with inst p have "pred_load_mw r = 5000" by blast
  with p r show ?thesis by blast
qed

text \<open>
  Claim C8 as stated fails: on the model of the one entry, \<^verbatim>\<open>predict_day\<close> raises
  IndexError for the Monday and for the Tuesday, at hour 0 of zone MZ, before it reaches
  hour 14.
\<close>

theorem one_entry_example_raises:
  "fst (predict_day example_lib ''2025-11-10'' ''m.parquet'' (Some [''MZ'']) None
          (example_fs one_entry_model)) = Inl IndexError \<and>
   fst (predict_day example_lib ''2025-11-11'' ''m.parquet'' (Some [''MZ'']) None
          (example_fs one_entry_model)) = Inl IndexError"
proof
  show "fst (predict_day example_lib ''2025-11-10'' ''m.parquet'' (Some [''MZ'']) None
          (example_fs one_entry_model)) = Inl IndexError"
    by (rule predict_day_uncovered [OF example_Timestamp_monday example_parquet _ _
          one_entry_no_hour0]) (simp_all add: requested_zones_def)
  show "fst (predict_day example_lib ''2025-11-11'' ''m.parquet'' (Some [''MZ'']) None
          (example_fs one_entry_model)) = Inl IndexError"
    by (rule predict_day_uncovered [OF example_Timestamp_tuesday example_parquet _ _
          one_entry_no_hour0]) (simp_all add: requested_zones_def)
qed



end
